theory Spec2Isabelle
  imports Complex_Main "HOL-Library.AList" "HOL-Library.Multiset"
begin

section \<open>Apportionment verification: the reconciliation engine\<close>

text \<open>
  A shallow embedding of the apportionment check script (the file that defines
  \<open>getTaxYearStatus\<close>, \<open>computeTaxTotals\<close>, \<open>computeMiscTotals\<close>, \<open>computeMtgTotals\<close>,
  \<open>getGLTotals\<close>, \<open>checkClient\<close> and \<open>main\<close>).

  Conventions of the model.
  \<^item> A JavaScript number holding money is a \<^typ>\<open>real\<close>: sums, differences and comparisons
    are exact. The rounding of IEEE doubles is not modelled.
  \<^item> A field the source reads as \<open>x || 0\<close> is a \<^typ>\<open>real option\<close>: \<open>None\<close> is a missing,
    \<open>null\<close> or \<open>undefined\<close> field.
  \<^item> A plain object used as a dictionary of totals is a map \<open>string \<rightharpoonup> real\<close>; an object whose
    entries are iterated (\<open>Object.values\<close>, \<open>Object.entries\<close>) is an association list in
    insertion order.
  \<^item> The answer of every database query is an input: \<open>Inl msg\<close> when the query throws an error
    with message \<open>msg\<close>, \<open>Inr rows\<close> when it returns.
  \<^item> Console output is kept only where a statement is about it (the GL cross-check warnings).
\<close>

subsection \<open>JavaScript idioms\<close>

text \<open>\<open>x || 0\<close> for a numeric field that may be absent. A present \<open>0\<close> is falsy and gives \<open>0\<close> too.\<close>

definition orZero :: "real option \<Rightarrow> real" where
  "orZero x = (case x of None \<Rightarrow> 0 | Some v \<Rightarrow> (if v = 0 then 0 else v))"

text \<open>\<open>obj[k] || 0\<close> on a dictionary of totals.\<close>

definition lookup0 :: "(string \<rightharpoonup> real) \<Rightarrow> string \<Rightarrow> real" where
  "lookup0 m k = orZero (m k)"

text \<open>\<open>obj[k] = (obj[k] || 0) + v\<close>.\<close>

definition addTo :: "(string \<rightharpoonup> real) \<Rightarrow> string \<Rightarrow> real \<Rightarrow> (string \<rightharpoonup> real)" where
  "addTo m k v = m(k \<mapsto> lookup0 m k + v)"

text \<open>\<open>Math.round(x * 100) / 100\<close>; \<open>Math.round\<close> rounds a half towards plus infinity, as
  \<^const>\<open>round\<close> does.\<close>

definition round2 :: "real \<Rightarrow> real" where
  "round2 x = of_int (round (x * 100)) / 100"

subsection \<open>Category catalog\<close>

record fund_category =
  label :: string
  description :: string
  apptTags :: "string list"
  cmnfundsAltKey :: string
  tolerancePercent :: "real option"

definition cat_currentTax :: fund_category where
  "cat_currentTax = \<lparr>label = ''currentTax'', description = ''Current Tax'',
     apptTags = [''CTax'', ''CTaxFee'', ''CTaxPen''], cmnfundsAltKey = ''Current Tax'',
     tolerancePercent = None\<rparr>"

definition cat_priorTax :: fund_category where
  "cat_priorTax = \<lparr>label = ''priorTax'', description = ''Prior Tax'',
     apptTags = [''PTax'', ''PTaxFee'', ''PTaxPen''], cmnfundsAltKey = ''Prior Tax'',
     tolerancePercent = None\<rparr>"

definition cat_backTax :: fund_category where
  "cat_backTax = \<lparr>label = ''backTax'', description = ''Back Tax'',
     apptTags = [''BTax'', ''BTaxFee'', ''BTaxPen''], cmnfundsAltKey = ''Back Tax'',
     tolerancePercent = None\<rparr>"

definition cat_miscReceipts :: fund_category where
  "cat_miscReceipts = \<lparr>label = ''miscReceipts'', description = ''Misc Receipts'',
     apptTags = [''ABT'', ''JT4MILL'', ''MV'', ''MVTS'', ''FLOOD'', ''INTEREST'', '''', ''undefined''],
     cmnfundsAltKey = ''MISC'', tolerancePercent = None\<rparr>"

definition cat_mtgTaxCert :: fund_category where
  "cat_mtgTaxCert = \<lparr>label = ''mtgTaxCert'', description = ''MtgTaxCert'',
     apptTags = [''MtgTaxCert''], cmnfundsAltKey = ''MtgTaxFee'', tolerancePercent = None\<rparr>"

definition cat_mtgTax :: fund_category where
  "cat_mtgTax = \<lparr>label = ''mtgTax'', description = ''MtgTax'',
     apptTags = [''MtgTax''], cmnfundsAltKey = ''MtgTax'', tolerancePercent = None\<rparr>"

text \<open>\<open>Object.entries(FUND_CATEGORIES)\<close>: the category keys with their entries, in the order
  the object literal lists them.\<close>

definition FUND_CATEGORIES :: "(string \<times> fund_category) list" where
  "FUND_CATEGORIES =
     [(''currentTax'', cat_currentTax), (''priorTax'', cat_priorTax), (''backTax'', cat_backTax),
      (''miscReceipts'', cat_miscReceipts), (''mtgTaxCert'', cat_mtgTaxCert),
      (''mtgTax'', cat_mtgTax)]"

subsection \<open>compareValues\<close>

record comparison_result =
  apportionment :: real
  gl :: real
  diff :: real
  match :: bool

definition compareValues :: "real \<Rightarrow> real \<Rightarrow> real \<Rightarrow> comparison_result" where
  "compareValues appt glv tolerance =
     (let d = \<bar>appt - glv\<bar>
      in \<lparr>apportionment = round2 appt, gl = round2 glv, diff = round2 d,
          match = (d \<le> tolerance)\<rparr>)"

subsection \<open>getTaxYearStatus\<close>

text \<open>A \<open>Date\<close>, as far as the classifier reads it: \<open>getMonth()\<close> is zero-based.\<close>

record js_date =
  getFullYear :: int
  getMonth :: nat

record tax_year_status =
  nextTax :: int
  currentTax :: int
  priorTax :: int
  backTax :: int

text \<open>The argument is \<open>None\<close> when it is omitted or is not a \<open>Date\<close> (it has no \<open>getMonth\<close>
  function); the classifier then reads the clock, \<open>now\<close>.\<close>

definition getTaxYearStatus :: "js_date \<Rightarrow> js_date option \<Rightarrow> tax_year_status" where
  "getTaxYearStatus now date =
     (let givenDate = (case date of Some d \<Rightarrow> d | None \<Rightarrow> now);
          month = getMonth givenDate + 1;
          year = getFullYear givenDate;
          currentTaxYearStart = (if month \<le> 6 then year - 1 else year)
      in \<lparr>nextTax = currentTaxYearStart + 1, currentTax = currentTaxYearStart,
          priorTax = currentTaxYearStart - 1, backTax = currentTaxYearStart - 2\<rparr>)"

subsection \<open>Rendering numbers in template strings\<close>

text \<open>\<open>String(n)\<close> and \<open>`${n}`\<close> for an integer \<open>n\<close>: the decimal digits, with a leading minus
  sign for a negative number. (JavaScript switches to exponent notation from \<open>1e21\<close> on; tax
  years and unit codes are far below.)\<close>

definition digit_char :: "nat \<Rightarrow> char" where
  "digit_char d = char_of (48 + d)"

fun show_nat :: "nat \<Rightarrow> string" where
  "show_nat n = (if n < 10 then [digit_char n] else show_nat (n div 10) @ [digit_char (n mod 10)])"

declare show_nat.simps [simp del]

definition show_int :: "int \<Rightarrow> string" where
  "show_int i = (if i < 0 then CHR ''-'' # show_nat (nat (- i)) else show_nat (nat i))"

subsection \<open>computeTaxTotals\<close>

text \<open>One group of a tax aggregation pipeline: \<open>_id.taxYear\<close>, \<open>_id.schoolDistrict\<close> and the
  four sums. The tax year is the stored number; the school district is kept as the text the
  template string renders it to.\<close>

record tax_group =
  taxYear :: int
  schoolDistrict :: string
  taxAmt :: "real option"
  penaltyAmt :: "real option"
  totalFees :: "real option"
  total :: "real option"

record merged_record =
  m_taxYear :: int
  m_schoolDistrict :: string
  m_taxAmt :: real
  m_penaltyAmt :: real
  m_totalFees :: real
  m_total :: real

text \<open>\<open>`${record._id.taxYear}-${record._id.schoolDistrict}`\<close>\<close>

definition mergeKey :: "tax_group \<Rightarrow> string" where
  "mergeKey r = show_int (taxYear r) @ ''-'' @ schoolDistrict r"

text \<open>The body of the merge loop. \<open>merged\<close> is the object under construction, in insertion
  order: an existing key is updated in place, a new key is appended.\<close>

definition mergeStep ::
  "(string \<times> merged_record) list \<Rightarrow> tax_group \<Rightarrow> (string \<times> merged_record) list" where
  "mergeStep merged r =
     (case map_of merged (mergeKey r) of
        Some e \<Rightarrow>
          AList.update (mergeKey r)
            (e\<lparr>m_taxAmt := m_taxAmt e + orZero (taxAmt r),
               m_penaltyAmt := m_penaltyAmt e + orZero (penaltyAmt r),
               m_totalFees := m_totalFees e + orZero (totalFees r),
               m_total := m_total e + orZero (total r)\<rparr>) merged
      | None \<Rightarrow>
          AList.update (mergeKey r)
            \<lparr>m_taxYear = taxYear r, m_schoolDistrict = schoolDistrict r,
             m_taxAmt = orZero (taxAmt r), m_penaltyAmt = orZero (penaltyAmt r),
             m_totalFees = orZero (totalFees r), m_total = orZero (total r)\<rparr> merged)"

text \<open>\<open>for (const record of [...resultsA, ...resultsB])\<close>\<close>

definition mergeRecords ::
  "tax_group list \<Rightarrow> tax_group list \<Rightarrow> (string \<times> merged_record) list" where
  "mergeRecords resultsA resultsB = foldl mergeStep [] (resultsA @ resultsB)"

datatype year_category = Current | Prior | Back

definition yearCategory :: "tax_year_status \<Rightarrow> bool \<Rightarrow> int \<Rightarrow> year_category" where
  "yearCategory taxYearStatus noPriorTax ty =
     (if ty = currentTax taxYearStatus then Current
      else if noPriorTax then Back
      else if ty = priorTax taxYearStatus then Prior
      else Back)"

definition glKey :: "year_category \<Rightarrow> string" where
  "glKey c =
     (if c = Current then ''Current Tax'' else if c = Prior then ''Prior Tax'' else ''Back Tax'')"

definition taxTag :: "year_category \<Rightarrow> string" where
  "taxTag c = (if c = Current then ''CTax'' else if c = Prior then ''PTax'' else ''BTax'')"

definition penTag :: "year_category \<Rightarrow> string" where
  "penTag c =
     (if c = Current then ''CTaxPen'' else if c = Prior then ''PTaxPen'' else ''BTaxPen'')"

definition feeTag :: "year_category \<Rightarrow> string" where
  "feeTag c =
     (if c = Current then ''CTaxFee'' else if c = Prior then ''PTaxFee'' else ''BTaxFee'')"

type_synonym totals = "string \<rightharpoonup> real"

text \<open>The body of the classification loop, on the pair \<open>(glTotals, apptTotals)\<close>.\<close>

definition classifyStep ::
  "tax_year_status \<Rightarrow> bool \<Rightarrow> totals \<times> totals \<Rightarrow> merged_record \<Rightarrow> totals \<times> totals" where
  "classifyStep taxYearStatus noPriorTax acc record =
     (let c = yearCategory taxYearStatus noPriorTax (m_taxYear record);
          glTotals = addTo (fst acc) (glKey c) (m_total record);
          appt1 = addTo (snd acc) (taxTag c) (m_taxAmt record);
          appt2 = addTo appt1 (penTag c) (m_penaltyAmt record);
          appt3 = addTo appt2 (feeTag c) (m_totalFees record)
      in (glTotals, appt3))"

text \<open>\<open>for (const record of Object.values(merged))\<close>\<close>

definition classifyRecords ::
  "tax_year_status \<Rightarrow> bool \<Rightarrow> merged_record list \<Rightarrow> totals \<times> totals" where
  "classifyRecords taxYearStatus noPriorTax records =
     foldl (classifyStep taxYearStatus noPriorTax) (Map.empty, Map.empty) records"

text \<open>The function after its two queries have returned \<open>resultsA\<close> and \<open>resultsB\<close>;
  \<open>queryToDate\<close> is the end of the window. The result is \<open>(glTotals, apptTotals)\<close>.\<close>

definition computeTaxTotals ::
  "js_date \<Rightarrow> tax_group list \<Rightarrow> tax_group list \<Rightarrow> js_date \<Rightarrow> bool \<Rightarrow> totals \<times> totals" where
  "computeTaxTotals now resultsA resultsB queryToDate noPriorTax =
     (let taxYearStatus = getTaxYearStatus now (Some queryToDate);
          merged = mergeRecords resultsA resultsB
      in classifyRecords taxYearStatus noPriorTax (map snd merged))"

subsection \<open>computeMiscTotals\<close>

text \<open>A row of the detail pipeline: \<open>detail._commUnit?.[0]?.unitCodeNumber\<close> (absent when the
  unit has no entry in the lookup collection) and \<open>detail.totalAmount\<close>.\<close>

record misc_detail =
  unitCodeNumber :: "int option"
  totalAmount :: "real option"

definition unitCodeToTag :: "string \<rightharpoonup> string" where
  "unitCodeToTag =
     [''1'' \<mapsto> ''ABT'', ''2'' \<mapsto> ''MV'', ''3'' \<mapsto> ''MVTS'', ''4'' \<mapsto> ''JT4MILL'',
      ''5'' \<mapsto> ''INTEREST'', ''6'' \<mapsto> ''FLOOD'']"

text \<open>\<open>unitCode ? (unitCodeToTag[String(unitCode)] || '') : ''\<close>: a unit code of \<open>0\<close> is falsy.\<close>

definition detailTag :: "misc_detail \<Rightarrow> string" where
  "detailTag detail =
     (case unitCodeNumber detail of
        None \<Rightarrow> []
      | Some unitCode \<Rightarrow>
          if unitCode = 0 then []
          else (case unitCodeToTag (show_int unitCode) of None \<Rightarrow> [] | Some tag \<Rightarrow> tag))"

text \<open>The body of the detail loop, on the pair \<open>(apptTotals, detailSum)\<close>.\<close>

definition miscStep :: "totals \<times> real \<Rightarrow> misc_detail \<Rightarrow> totals \<times> real" where
  "miscStep acc detail =
     (addTo (fst acc) (detailTag detail) (orZero (totalAmount detail)),
      snd acc + orZero (totalAmount detail))"

text \<open>The function after its two queries have returned: \<open>totalResult\<close> lists the
  \<open>totalMisc\<close> field of each row of the total pipeline. The result is
  \<open>(glTotal, apptTotals)\<close>; the empty string is the tag of the unclassified amounts.\<close>

definition computeMiscTotals :: "real option list \<Rightarrow> misc_detail list \<Rightarrow> real \<times> totals" where
  "computeMiscTotals totalResult detailResults =
     (let glTotal = (case totalResult of [] \<Rightarrow> 0 | r # _ \<Rightarrow> orZero r);
          loop = foldl miscStep (Map.empty, 0) detailResults;
          apptTotals = fst loop;
          detailSum = snd loop;
          unaccounted = glTotal - detailSum
      in (glTotal,
          if \<bar>unaccounted\<bar> > 0.01 then addTo apptTotals [] unaccounted else apptTotals))"

subsection \<open>computeMtgTotals\<close>

record mtg_row =
  totalMtgTax :: "real option"
  totalCertFee :: "real option"

text \<open>The function after its query has returned \<open>results\<close>. The result is
  \<open>(glTotals, apptTotals)\<close>.\<close>

definition computeMtgTotals :: "mtg_row list \<Rightarrow> totals \<times> totals" where
  "computeMtgTotals results =
     (let mtgTax = (case results of [] \<Rightarrow> 0 | r # _ \<Rightarrow> orZero (totalMtgTax r));
          certFee = (case results of [] \<Rightarrow> 0 | r # _ \<Rightarrow> orZero (totalCertFee r))
      in ([''MtgTax'' \<mapsto> mtgTax, ''MtgTaxFee'' \<mapsto> certFee],
          [''MtgTax'' \<mapsto> mtgTax, ''MtgTaxCert'' \<mapsto> certFee]))"

subsection \<open>getFundMap and getGLTotals\<close>

text \<open>A document of the fund collection: \<open>_id\<close> (as the text \<open>toString()\<close> gives) and
  \<open>altKey\<close>. The description is only printed.\<close>

record fund_doc =
  fund_id :: string
  altKey :: "string option"

text \<open>\<open>if (fund.altKey) fundMap[fund.altKey] = {_id: fund._id, ...}\<close>: a missing or empty
  \<open>altKey\<close> is falsy; a later fund with the same \<open>altKey\<close> replaces an earlier one.\<close>

definition fundMapStep :: "(string \<rightharpoonup> string) \<Rightarrow> fund_doc \<Rightarrow> (string \<rightharpoonup> string)" where
  "fundMapStep fundMap fund =
     (case altKey fund of
        None \<Rightarrow> fundMap
      | Some k \<Rightarrow> if k = [] then fundMap else fundMap(k \<mapsto> fund_id fund))"

definition getFundMap :: "fund_doc list \<Rightarrow> (string \<rightharpoonup> string)" where
  "getFundMap funds = foldl fundMapStep Map.empty funds"

text \<open>A group of the ledger pipeline (grouped by fund over the window): \<open>_id\<close> and the three
  sums.\<close>

record gl_row =
  gl_fund :: string
  totalDeposit :: real
  totalPayments :: "real option"
  totalTransferOut :: "real option"

definition glTotalsStep :: "totals \<Rightarrow> gl_row \<Rightarrow> totals" where
  "glTotalsStep totals r =
     totals(gl_fund r \<mapsto>
       totalDeposit r - orZero (totalPayments r) - orZero (totalTransferOut r))"

text \<open>The function on the groups \<open>ledger\<close> of the ledger collection for the window; the
  pipeline's \<open>fund: {$in: fundIds}\<close> keeps the groups of the requested funds.\<close>

definition getGLTotals :: "gl_row list \<Rightarrow> string list \<Rightarrow> totals" where
  "getGLTotals ledger fundIds =
     foldl glTotalsStep Map.empty (filter (\<lambda>r. gl_fund r \<in> set fundIds) ledger)"

subsection \<open>checkClient\<close>

datatype status = MATCH | MISMATCH | ERROR

record tenant_result =
  client :: string
  status :: status
  comparison :: "(string \<times> comparison_result) list option"
  error :: "string option"

text \<open>What the queries of one call of \<open>checkClient\<close> answer, and the clock.\<close>

record tenant_db =
  q_now :: js_date
  q_config :: "string + bool"
  q_funds :: "string + fund_doc list"
  q_taxpayments :: "string + tax_group list"
  q_paymenttaxdetails :: "string + tax_group list"
  q_miscTotal :: "string + real option list"
  q_miscDetail :: "string + misc_detail list"
  q_mtg :: "string + mtg_row list"
  q_gldaily :: "string + gl_row list"

text \<open>The comparison loop.\<close>

definition sumTags :: "totals \<Rightarrow> string list \<Rightarrow> real" where
  "sumTags apptTotals tags = foldl (\<lambda>apptAmount tag. apptAmount + lookup0 apptTotals tag) 0 tags"

text \<open>\<open>cat.tolerancePercent ? Math.max(glAmount, apptAmount) * (cat.tolerancePercent / 100)
  : 0.01\<close>: an absent percentage and a percentage of \<open>0\<close> are both falsy.\<close>

definition toleranceOf :: "fund_category \<Rightarrow> real \<Rightarrow> real \<Rightarrow> real" where
  "toleranceOf cat glAmount apptAmount =
     (case tolerancePercent cat of
        None \<Rightarrow> 0.01
      | Some p \<Rightarrow> if p = 0 then 0.01 else max glAmount apptAmount * (p / 100))"

definition compareCategory :: "fund_category \<Rightarrow> totals \<Rightarrow> totals \<Rightarrow> comparison_result" where
  "compareCategory cat apptTotals glByFundAltKey =
     (let apptAmount = sumTags apptTotals (apptTags cat);
          glAmount = lookup0 glByFundAltKey (cmnfundsAltKey cat);
          tolerance = toleranceOf cat glAmount apptAmount
      in compareValues apptAmount glAmount tolerance)"

definition compareStep ::
  "totals \<Rightarrow> totals \<Rightarrow> (string \<times> comparison_result) list \<times> bool \<Rightarrow> string \<times> fund_category
     \<Rightarrow> (string \<times> comparison_result) list \<times> bool" where
  "compareStep apptTotals glByFundAltKey acc entry =
     (let cat = snd entry;
          compResult = compareCategory cat apptTotals glByFundAltKey
      in (AList.update (label cat) compResult (fst acc),
          if \<not> match compResult then False else snd acc))"

text \<open>The loop over a catalog, starting from \<open>comparison = {}\<close> and \<open>allMatch = true\<close>.\<close>

definition compareAll ::
  "(string \<times> fund_category) list \<Rightarrow> totals \<Rightarrow> totals
     \<Rightarrow> (string \<times> comparison_result) list \<times> bool" where
  "compareAll cats apptTotals glByFundAltKey =
     foldl (compareStep apptTotals glByFundAltKey) ([], True) cats"

text \<open>The cross-check. First the loop that collects \<open>fundIds\<close> and \<open>categoryToFundId\<close>.\<close>

definition fundIdStep ::
  "(string \<rightharpoonup> string) \<Rightarrow> string list \<times> (string \<rightharpoonup> string) \<Rightarrow> string \<times> fund_category
     \<Rightarrow> string list \<times> (string \<rightharpoonup> string)" where
  "fundIdStep fundMap acc entry =
     (case fundMap (cmnfundsAltKey (snd entry)) of
        None \<Rightarrow> acc
      | Some fundId \<Rightarrow> (fst acc @ [fundId], (snd acc)(fst entry \<mapsto> fundId)))"

text \<open>A warning line of the cross-check: the category's description and the computed, actual
  and differing amounts (printed with two decimals).\<close>

record gl_warning =
  w_description :: string
  w_computed :: real
  w_actual :: real
  w_diff :: real

definition crossCheckStep ::
  "(string \<rightharpoonup> string) \<Rightarrow> totals \<Rightarrow> totals \<Rightarrow> gl_warning list \<Rightarrow> string \<times> fund_category
     \<Rightarrow> gl_warning list" where
  "crossCheckStep categoryToFundId actualGLTotals glByFundAltKey warnings entry =
     (case categoryToFundId (fst entry) of
        None \<Rightarrow> warnings
      | Some fundIdStr \<Rightarrow>
          if fundIdStr = [] then warnings
          else
            (let actualGL = lookup0 actualGLTotals fundIdStr;
                 computedGL = lookup0 glByFundAltKey (cmnfundsAltKey (snd entry));
                 d = \<bar>actualGL - computedGL\<bar>
             in if d > 0.01
                then warnings @ [\<lparr>w_description = description (snd entry), w_computed = computedGL,
                                  w_actual = actualGL, w_diff = d\<rparr>]
                else warnings))"

text \<open>The cross-check block: \<open>Inl msg\<close> when the ledger query throws, else the warnings it
  prints (none when no category has a fund, and the ledger is then not queried).\<close>

definition crossCheck ::
  "(string \<times> fund_category) list \<Rightarrow> (string \<rightharpoonup> string) \<Rightarrow> totals \<Rightarrow> (string + gl_row list)
     \<Rightarrow> string + gl_warning list" where
  "crossCheck cats fundMap glByFundAltKey ledgerQuery =
     (let ids = foldl (fundIdStep fundMap) ([], Map.empty) cats;
          fundIds = fst ids;
          categoryToFundId = snd ids
      in if length fundIds > 0
         then (case ledgerQuery of
                 Inl msg \<Rightarrow> Inl msg
               | Inr ledger \<Rightarrow>
                   Inr (foldl (crossCheckStep categoryToFundId (getGLTotals ledger fundIds)
                                 glByFundAltKey) [] cats))
         else Inr [])"

text \<open>The combined totals of the three domains: object spreads, the later source winning on a
  shared key.\<close>

definition combinedAppt :: "totals \<times> totals \<Rightarrow> real \<times> totals \<Rightarrow> totals \<times> totals \<Rightarrow> totals" where
  "combinedAppt taxResult miscResult mtgResult = snd taxResult ++ snd miscResult ++ snd mtgResult"

definition combinedGL :: "totals \<times> totals \<Rightarrow> real \<times> totals \<Rightarrow> totals \<times> totals \<Rightarrow> totals" where
  "combinedGL taxResult miscResult mtgResult =
     (fst taxResult)(''MISC'' \<mapsto> fst miscResult) ++ fst mtgResult"

text \<open>Steps 1 to 5 of the \<open>try\<close> block and the two combined objects: \<open>Inl msg\<close> when a
  query throws, else \<open>(fundMap, apptTotals, glByFundAltKey)\<close>. Of two queries awaited together
  the first listed is read first.\<close>

definition sourceTotals ::
  "tenant_db \<Rightarrow> js_date \<Rightarrow> string + ((string \<rightharpoonup> string) \<times> totals \<times> totals)" where
  "sourceTotals db toDate =
     (case q_config db of Inl msg \<Rightarrow> Inl msg | Inr noPriorTax \<Rightarrow>
      case q_funds db of Inl msg \<Rightarrow> Inl msg | Inr funds \<Rightarrow>
      case q_taxpayments db of Inl msg \<Rightarrow> Inl msg | Inr resultsA \<Rightarrow>
      case q_paymenttaxdetails db of Inl msg \<Rightarrow> Inl msg | Inr resultsB \<Rightarrow>
      case q_miscTotal db of Inl msg \<Rightarrow> Inl msg | Inr totalResult \<Rightarrow>
      case q_miscDetail db of Inl msg \<Rightarrow> Inl msg | Inr detailResults \<Rightarrow>
      case q_mtg db of Inl msg \<Rightarrow> Inl msg | Inr results \<Rightarrow>
        (let fundMap = getFundMap funds;
             taxResult = computeTaxTotals (q_now db) resultsA resultsB toDate noPriorTax;
             miscResult = computeMiscTotals totalResult detailResults;
             mtgResult = computeMtgTotals results
         in Inr (fundMap, combinedAppt taxResult miscResult mtgResult,
                 combinedGL taxResult miscResult mtgResult)))"

text \<open>The body of the \<open>try\<close> block: \<open>Inl msg\<close> when a step throws, else
  \<open>(comparison, allMatch, warnings)\<close>.\<close>

definition checkClientBody ::
  "tenant_db \<Rightarrow> js_date \<Rightarrow> string + ((string \<times> comparison_result) list \<times> bool \<times> gl_warning list)" where
  "checkClientBody db toDate =
     (case sourceTotals db toDate of
        Inl msg \<Rightarrow> Inl msg
      | Inr src \<Rightarrow>
          (let fundMap = fst src;
               apptTotals = fst (snd src);
               glByFundAltKey = snd (snd src);
               compared = compareAll FUND_CATEGORIES apptTotals glByFundAltKey
           in case crossCheck FUND_CATEGORIES fundMap glByFundAltKey (q_gldaily db) of
                Inl msg \<Rightarrow> Inl msg
              | Inr warnings \<Rightarrow> Inr (fst compared, snd compared, warnings)))"

text \<open>The result object and the cross-check warnings printed on the way. \<open>toDate\<close> is the end
  of the date range.\<close>

definition checkClientRun :: "tenant_db \<Rightarrow> string \<Rightarrow> js_date \<Rightarrow> tenant_result \<times> gl_warning list" where
  "checkClientRun db clientName toDate =
     (case checkClientBody db toDate of
        Inl msg \<Rightarrow>
          (\<lparr>client = clientName, status = ERROR, comparison = None, error = Some msg\<rparr>, [])
      | Inr r \<Rightarrow>
          (\<lparr>client = clientName, status = (if fst (snd r) then MATCH else MISMATCH),
            comparison = Some (fst r), error = None\<rparr>, snd (snd r)))"

definition checkClient :: "tenant_db \<Rightarrow> string \<Rightarrow> js_date \<Rightarrow> tenant_result" where
  "checkClient db clientName toDate = fst (checkClientRun db clientName toDate)"

text \<open>The mismatch detail of the summary: for a mismatched tenant, the categories whose
  comparison does not match.\<close>

definition mismatchDetail :: "tenant_result \<Rightarrow> string list" where
  "mismatchDetail r =
     (if status r = MISMATCH
      then (case comparison r of
              None \<Rightarrow> []
            | Some c \<Rightarrow> map fst (filter (\<lambda>kv. \<not> match (snd kv)) c))
      else [])"

subsection \<open>main\<close>

text \<open>\<open>results.findIndex(p)\<close>, with \<open>None\<close> for \<open>-1\<close>.\<close>

fun findIndex :: "('a \<Rightarrow> bool) \<Rightarrow> 'a list \<Rightarrow> nat option" where
  "findIndex p [] = None"
| "findIndex p (x # xs) =
     (if p x then Some 0 else (case findIndex p xs of None \<Rightarrow> None | Some i \<Rightarrow> Some (Suc i)))"

text \<open>The databases change while the script runs, so a run is described by what each call of
  \<open>checkClient\<close> finds: \<open>env n c\<close> is what the queries answer during call number \<open>n\<close> of the
  run (counted from 0), made for tenant \<open>c\<close>. The state of the loops is the number of calls
  made so far, the names of the tenants checked so far, in call order, and \<open>results\<close>.\<close>

type_synonym run_env = "nat \<Rightarrow> string \<Rightarrow> tenant_db"

record run_state =
  calls :: "string list"
  results :: "tenant_result list"

definition firstPassStep :: "run_env \<Rightarrow> js_date \<Rightarrow> run_state \<Rightarrow> string \<Rightarrow> run_state" where
  "firstPassStep env toDate s clientName =
     (let result = checkClient (env (length (calls s)) clientName) clientName toDate
      in \<lparr>calls = calls s @ [clientName], results = results s @ [result]\<rparr>)"

definition retryStep :: "run_env \<Rightarrow> js_date \<Rightarrow> run_state \<Rightarrow> tenant_result \<Rightarrow> run_state" where
  "retryStep env toDate s failed =
     (let retryResult = checkClient (env (length (calls s)) (client failed)) (client failed) toDate
      in \<lparr>calls = calls s @ [client failed],
          results = (case findIndex (\<lambda>r. client r = client failed) (results s) of
                       None \<Rightarrow> results s
                     | Some index \<Rightarrow> (results s)[index := retryResult])\<rparr>)"

text \<open>\<open>main\<close> from the first pass to the end of the retry block, on the tenant list
  \<open>config.clients\<close>.\<close>

definition mainRun :: "run_env \<Rightarrow> js_date \<Rightarrow> string list \<Rightarrow> run_state" where
  "mainRun env toDate clients =
     (let s1 = foldl (firstPassStep env toDate) \<lparr>calls = [], results = []\<rparr> clients;
          failedClients = filter (\<lambda>r. status r = ERROR) (results s1)
      in if length failedClients > 0
         then foldl (retryStep env toDate) s1 failedClients
         else s1)"

record summary =
  s_total :: nat
  s_matched :: nat
  s_mismatched :: nat
  s_errors :: nat

definition buildSummary :: "tenant_result list \<Rightarrow> summary" where
  "buildSummary rs =
     \<lparr>s_total = length rs,
      s_matched = length (filter (\<lambda>r. status r = MATCH) rs),
      s_mismatched = length (filter (\<lambda>r. status r = MISMATCH) rs),
      s_errors = length (filter (\<lambda>r. status r = ERROR) rs)\<rparr>"

subsection \<open>The end-to-end scenario\<close>

text \<open>The scenario of the testable properties: the window ending at \<open>toDate\<close> holds one
  current-year group \<open>{taxAmt: 100, penaltyAmt: 5, totalFees: 2, total: 107}\<close> for district 1
  in both tax collections, nothing in the misc and mortgage collections, a fund for
  "Current Tax", and ledger postings netting \<open>glCrossCheckTotal\<close> on that fund.\<close>

definition scenarioGroup :: "int \<Rightarrow> tax_group" where
  "scenarioGroup y =
     \<lparr>taxYear = y, schoolDistrict = ''1'', taxAmt = Some 100, penaltyAmt = Some 5,
      totalFees = Some 2, total = Some 107\<rparr>"

definition scenarioDb :: "js_date \<Rightarrow> bool \<Rightarrow> real \<Rightarrow> tenant_db" where
  "scenarioDb toDate noPriorTax glCrossCheckTotal =
     \<lparr>q_now = toDate,
      q_config = Inr noPriorTax,
      q_funds = Inr [\<lparr>fund_id = ''fund-current-tax'', altKey = Some ''Current Tax''\<rparr>],
      q_taxpayments = Inr [scenarioGroup (currentTax (getTaxYearStatus toDate (Some toDate)))],
      q_paymenttaxdetails =
        Inr [scenarioGroup (currentTax (getTaxYearStatus toDate (Some toDate)))],
      q_miscTotal = Inr [],
      q_miscDetail = Inr [],
      q_mtg = Inr [],
      q_gldaily = Inr [\<lparr>gl_fund = ''fund-current-tax'', totalDeposit = glCrossCheckTotal,
                        totalPayments = None, totalTransferOut = None\<rparr>]\<rparr>"


text \<open>The retry scenarios. A tenant database whose first tax query throws; a run in which
  only the second call finds it (three tenants, the second failing in the first pass and
  succeeding on retry); and a run in which the first two calls find it.\<close>

definition failingDb :: tenant_db where
  "failingDb =
     (scenarioDb \<lparr>getFullYear = 2025, getMonth = 7\<rparr> False 107)
       \<lparr>q_taxpayments := Inl ''connection reset''\<rparr>"

definition retryEnv :: run_env where
  "retryEnv n c =
     (if n = 1 then failingDb else scenarioDb \<lparr>getFullYear = 2025, getMonth = 7\<rparr> False 107)"

definition duplicateEnv :: run_env where
  "duplicateEnv n c =
     (if n < 2 then failingDb else scenarioDb \<lparr>getFullYear = 2025, getMonth = 7\<rparr> False 107)"

subsection \<open>Auxiliary notions\<close>




text \<open>The results of the first pass over a tenant list.\<close>

definition firstPassResults :: "run_env \<Rightarrow> js_date \<Rightarrow> string list \<Rightarrow> tenant_result list" where
  "firstPassResults env toDate clients =
     map (\<lambda>ic. checkClient (env (fst ic) (snd ic)) (snd ic) toDate) (enumerate 0 clients)"

section \<open>Properties\<close>

subsection \<open>Basic facts\<close>

lemma orZero_None [simp]: "orZero None = 0"
  by (simp add: orZero_def)

lemma orZero_Some [simp]: "orZero (Some v) = v"
  by (simp add: orZero_def)

lemma lookup0_empty [simp]: "lookup0 Map.empty k = 0"
  by (simp add: lookup0_def)

lemma lookup0_upd [simp]: "lookup0 (m(k \<mapsto> v)) k' = (if k' = k then v else lookup0 m k')"
  by (simp add: lookup0_def)

lemma lookup0_addTo [simp]:
  "lookup0 (addTo m k v) k' = (if k' = k then lookup0 m k + v else lookup0 m k')"
  by (simp add: addTo_def)

lemma match_compareValues [simp]: "match (compareValues a g t) = (\<bar>a - g\<bar> \<le> t)"
  by (simp add: compareValues_def Let_def)


lemma compareAll_snd_aux:
  "snd (foldl (compareStep appt glm) acc cats) =
     (snd acc \<and> (\<forall>e \<in> set cats. match (compareCategory (snd e) appt glm)))"
  by (induction cats arbitrary: acc) (auto simp: compareStep_def Let_def)

lemma compareAll_allMatch:
  "snd (compareAll cats appt glm) = (\<forall>e \<in> set cats. match (compareCategory (snd e) appt glm))"
  by (simp add: compareAll_def compareAll_snd_aux)

lemma compareAll_FUND_CATEGORIES:
  "fst (compareAll FUND_CATEGORIES appt glm) =
     [(''currentTax'', compareCategory cat_currentTax appt glm),
      (''priorTax'', compareCategory cat_priorTax appt glm),
      (''backTax'', compareCategory cat_backTax appt glm),
      (''miscReceipts'', compareCategory cat_miscReceipts appt glm),
      (''mtgTaxCert'', compareCategory cat_mtgTaxCert appt glm),
      (''mtgTax'', compareCategory cat_mtgTax appt glm)]"
  by (simp add: compareAll_def FUND_CATEGORIES_def compareStep_def Let_def
      cat_currentTax_def cat_priorTax_def cat_backTax_def cat_miscReceipts_def
      cat_mtgTaxCert_def cat_mtgTax_def)

lemma compareAll_eval:
  "compareAll FUND_CATEGORIES appt glm =
     ([(''currentTax'', compareCategory cat_currentTax appt glm),
       (''priorTax'', compareCategory cat_priorTax appt glm),
       (''backTax'', compareCategory cat_backTax appt glm),
       (''miscReceipts'', compareCategory cat_miscReceipts appt glm),
       (''mtgTaxCert'', compareCategory cat_mtgTaxCert appt glm),
       (''mtgTax'', compareCategory cat_mtgTax appt glm)],
      match (compareCategory cat_currentTax appt glm)
      \<and> match (compareCategory cat_priorTax appt glm)
      \<and> match (compareCategory cat_backTax appt glm)
      \<and> match (compareCategory cat_miscReceipts appt glm)
      \<and> match (compareCategory cat_mtgTaxCert appt glm)
      \<and> match (compareCategory cat_mtgTax appt glm))"
proof -
  have "snd (compareAll FUND_CATEGORIES appt glm) =
      (match (compareCategory cat_currentTax appt glm)
      \<and> match (compareCategory cat_priorTax appt glm)
      \<and> match (compareCategory cat_backTax appt glm)
      \<and> match (compareCategory cat_miscReceipts appt glm)
      \<and> match (compareCategory cat_mtgTaxCert appt glm)
      \<and> match (compareCategory cat_mtgTax appt glm))"
    unfolding compareAll_allMatch by (simp add: FUND_CATEGORIES_def)
  then show ?thesis
    using compareAll_FUND_CATEGORIES [of appt glm] by (simp add: prod_eq_iff)
qed

lemma compareCategory_cats:
  "compareCategory cat_currentTax appt glm =
     compareValues (lookup0 appt ''CTax'' + lookup0 appt ''CTaxFee'' + lookup0 appt ''CTaxPen'')
       (lookup0 glm ''Current Tax'') 0.01"
  "compareCategory cat_priorTax appt glm =
     compareValues (lookup0 appt ''PTax'' + lookup0 appt ''PTaxFee'' + lookup0 appt ''PTaxPen'')
       (lookup0 glm ''Prior Tax'') 0.01"
  "compareCategory cat_backTax appt glm =
     compareValues (lookup0 appt ''BTax'' + lookup0 appt ''BTaxFee'' + lookup0 appt ''BTaxPen'')
       (lookup0 glm ''Back Tax'') 0.01"
  "compareCategory cat_miscReceipts appt glm =
     compareValues (lookup0 appt ''ABT'' + lookup0 appt ''JT4MILL'' + lookup0 appt ''MV''
        + lookup0 appt ''MVTS'' + lookup0 appt ''FLOOD'' + lookup0 appt ''INTEREST''
        + lookup0 appt [] + lookup0 appt ''undefined'')
       (lookup0 glm ''MISC'') 0.01"
  "compareCategory cat_mtgTaxCert appt glm =
     compareValues (lookup0 appt ''MtgTaxCert'') (lookup0 glm ''MtgTaxFee'') 0.01"
  "compareCategory cat_mtgTax appt glm =
     compareValues (lookup0 appt ''MtgTax'') (lookup0 glm ''MtgTax'') 0.01"
  by (simp_all add: compareCategory_def sumTags_def toleranceOf_def Let_def
      cat_currentTax_def cat_priorTax_def cat_backTax_def cat_miscReceipts_def
      cat_mtgTaxCert_def cat_mtgTax_def)

lemma digit_char_eval:
  "digit_char 0 = CHR ''0''" "digit_char (Suc 0) = CHR ''1''" "digit_char 2 = CHR ''2''"
  "digit_char 3 = CHR ''3''" "digit_char 4 = CHR ''4''" "digit_char 5 = CHR ''5''"
  "digit_char 6 = CHR ''6''" "digit_char 7 = CHR ''7''" "digit_char 8 = CHR ''8''"
  "digit_char 9 = CHR ''9''"
  by (simp_all add: digit_char_def char_of_def bit_Suc_0_iff)

lemma show_int_eval: "show_int 2025 = ''2025''" "show_int 2024 = ''2024''" "show_int 1 = ''1''"
  by (simp_all add: show_int_def show_nat.simps digit_char_eval)



lemma client_checkClient [simp]: "client (checkClient db c d) = c"
  by (simp add: checkClient_def checkClientRun_def split: sum.splits)



subsection \<open>The scenario, evaluated\<close>

lemma round2_of_int: "round2 (of_int n) = of_int n"
proof -
  have "round (of_int n * 100 :: real) = n * 100"
    using round_of_int [where ?'a = real, of "n * 100"] by simp
  then show ?thesis by (simp add: round2_def)
qed

lemma round2_numeral [simp]: "round2 (numeral n) = numeral n"
  using round2_of_int [of "numeral n"] by simp

lemma round2_0 [simp]: "round2 0 = 0"
  by (simp add: round2_def)

lemma yearCategory_current [simp]: "yearCategory st npt (currentTax st) = Current"
  by (simp add: yearCategory_def)

lemma scenario_tax:
  "computeTaxTotals now [scenarioGroup (currentTax (getTaxYearStatus now (Some d)))]
      [scenarioGroup (currentTax (getTaxYearStatus now (Some d)))] d npt =
     ([''Current Tax'' \<mapsto> 214], [''CTax'' \<mapsto> 200, ''CTaxPen'' \<mapsto> 10, ''CTaxFee'' \<mapsto> 4])"
  by (simp add: computeTaxTotals_def mergeRecords_def mergeStep_def scenarioGroup_def
      classifyRecords_def classifyStep_def Let_def glKey_def taxTag_def penTag_def feeTag_def
      addTo_def)

lemma scenario_sourceTotals:
  "sourceTotals (scenarioDb d npt x) d =
     Inr ([''Current Tax'' \<mapsto> ''fund-current-tax''],
          [''CTax'' \<mapsto> 200, ''CTaxPen'' \<mapsto> 10, ''CTaxFee'' \<mapsto> 4, ''MtgTax'' \<mapsto> 0,
           ''MtgTaxCert'' \<mapsto> 0],
          [''Current Tax'' \<mapsto> 214, ''MISC'' \<mapsto> 0, ''MtgTax'' \<mapsto> 0, ''MtgTaxFee'' \<mapsto> 0])"
  by (simp add: sourceTotals_def scenarioDb_def scenario_tax getFundMap_def fundMapStep_def
      computeMiscTotals_def computeMtgTotals_def combinedAppt_def combinedGL_def Let_def)

lemma scenario_compare:
  "compareAll FUND_CATEGORIES
     [''CTax'' \<mapsto> 200, ''CTaxPen'' \<mapsto> 10, ''CTaxFee'' \<mapsto> 4, ''MtgTax'' \<mapsto> 0, ''MtgTaxCert'' \<mapsto> 0]
     [''Current Tax'' \<mapsto> 214, ''MISC'' \<mapsto> 0, ''MtgTax'' \<mapsto> 0, ''MtgTaxFee'' \<mapsto> 0] =
   ([(''currentTax'', \<lparr>apportionment = 214, gl = 214, diff = 0, match = True\<rparr>),
     (''priorTax'', \<lparr>apportionment = 0, gl = 0, diff = 0, match = True\<rparr>),
     (''backTax'', \<lparr>apportionment = 0, gl = 0, diff = 0, match = True\<rparr>),
     (''miscReceipts'', \<lparr>apportionment = 0, gl = 0, diff = 0, match = True\<rparr>),
     (''mtgTaxCert'', \<lparr>apportionment = 0, gl = 0, diff = 0, match = True\<rparr>),
     (''mtgTax'', \<lparr>apportionment = 0, gl = 0, diff = 0, match = True\<rparr>)], True)"
  unfolding compareAll_eval compareCategory_cats
  by (simp add: compareValues_def)

lemma scenario_crossCheck:
  "crossCheck FUND_CATEGORIES [''Current Tax'' \<mapsto> ''fund-current-tax'']
     [''Current Tax'' \<mapsto> 214, ''MISC'' \<mapsto> 0, ''MtgTax'' \<mapsto> 0, ''MtgTaxFee'' \<mapsto> 0]
     (q_gldaily (scenarioDb d npt x)) =
   Inr (if \<bar>x - 214\<bar> > 0.01
        then [\<lparr>w_description = ''Current Tax'', w_computed = 214, w_actual = x,
               w_diff = \<bar>x - 214\<bar>\<rparr>]
        else [])"
  by (simp add: crossCheck_def FUND_CATEGORIES_def fundIdStep_def Let_def
      cat_currentTax_def cat_priorTax_def cat_backTax_def cat_miscReceipts_def
      cat_mtgTaxCert_def cat_mtgTax_def crossCheckStep_def getGLTotals_def glTotalsStep_def
      scenarioDb_def)

lemma scenario_run:
  "checkClientRun (scenarioDb d npt x) c d =
     (\<lparr>client = c, status = MATCH,
       comparison = Some
         [(''currentTax'', \<lparr>apportionment = 214, gl = 214, diff = 0, match = True\<rparr>),
          (''priorTax'', \<lparr>apportionment = 0, gl = 0, diff = 0, match = True\<rparr>),
          (''backTax'', \<lparr>apportionment = 0, gl = 0, diff = 0, match = True\<rparr>),
          (''miscReceipts'', \<lparr>apportionment = 0, gl = 0, diff = 0, match = True\<rparr>),
          (''mtgTaxCert'', \<lparr>apportionment = 0, gl = 0, diff = 0, match = True\<rparr>),
          (''mtgTax'', \<lparr>apportionment = 0, gl = 0, diff = 0, match = True\<rparr>)],
       error = None\<rparr>,
      if \<bar>x - 214\<bar> > 0.01
      then [\<lparr>w_description = ''Current Tax'', w_computed = 214, w_actual = x,
             w_diff = \<bar>x - 214\<bar>\<rparr>]
      else [])"
  by (simp add: checkClientRun_def checkClientBody_def scenario_sourceTotals scenario_compare
      scenario_crossCheck Let_def)

lemma scenario_status: "status (checkClient (scenarioDb d npt x) c d) = MATCH"
  by (simp add: checkClient_def scenario_run)

lemma scenario_currentTax:
  "map_of (the (comparison (checkClient (scenarioDb d npt x) c d))) ''currentTax'' =
     Some \<lparr>apportionment = 214, gl = 214, diff = 0, match = True\<rparr>"
  by (simp add: checkClient_def scenario_run)

subsection \<open>Comparator\<close>




subsection \<open>The GL cross-check\<close>

lemma sourceTotals_gldaily [simp]: "sourceTotals (db\<lparr>q_gldaily := x\<rparr>) d = sourceTotals db d"
  by (simp add: sourceTotals_def split: sum.splits)

lemma crossCheck_returns: "\<exists>w. crossCheck cats fm glm (Inr ledger) = Inr w"
  by (simp add: crossCheck_def Let_def)

text \<open>
  C1. The GL cross-check is diagnostic only. Whatever postings the ledger collection returns
  for the window, the result of a tenant check is the one the Comparator computed from the
  source-collection totals: every category's comparison result and match flag, and the
  MATCH or MISMATCH status that follows from them (when a source query throws, the check is
  in ERROR before the cross-check is reached). No cross-check difference changes them.
\<close>

theorem cross_check_diagnostic_only:
  "checkClient (db\<lparr>q_gldaily := Inr ledger\<rparr>) c d =
     (case sourceTotals db d of
        Inl msg \<Rightarrow> \<lparr>client = c, status = ERROR, comparison = None, error = Some msg\<rparr>
      | Inr src \<Rightarrow>
          \<lparr>client = c,
           status = (if snd (compareAll FUND_CATEGORIES (fst (snd src)) (snd (snd src)))
                     then MATCH else MISMATCH),
           comparison = Some (fst (compareAll FUND_CATEGORIES (fst (snd src)) (snd (snd src)))),
           error = None\<rparr>)"
proof (cases "sourceTotals db d")
  case (Inl msg)
  then show ?thesis
    by (simp add: checkClient_def checkClientRun_def checkClientBody_def)
next
  case (Inr src)
  obtain w where "crossCheck FUND_CATEGORIES (fst src) (snd (snd src)) (Inr ledger) = Inr w"
    using crossCheck_returns by blast
  with Inr show ?thesis
    by (simp add: checkClient_def checkClientRun_def checkClientBody_def Let_def)
qed

theorem cross_check_diagnostic_only_witness:
  "status (checkClient
      ((scenarioDb \<lparr>getFullYear = 2025, getMonth = 7\<rparr> False 107)
         \<lparr>q_gldaily := Inr [\<lparr>gl_fund = ''fund-current-tax'', totalDeposit = 1000000,
                              totalPayments = Some 1, totalTransferOut = None\<rparr>]\<rparr>)
      ''acme'' \<lparr>getFullYear = 2025, getMonth = 7\<rparr>) = MATCH
   \<and> map_of (the (comparison (checkClient
      ((scenarioDb \<lparr>getFullYear = 2025, getMonth = 7\<rparr> False 107)
         \<lparr>q_gldaily := Inr [\<lparr>gl_fund = ''fund-current-tax'', totalDeposit = 1000000,
                              totalPayments = Some 1, totalTransferOut = None\<rparr>]\<rparr>)
      ''acme'' \<lparr>getFullYear = 2025, getMonth = 7\<rparr>))) ''currentTax''
     = Some \<lparr>apportionment = 214, gl = 214, diff = 0, match = True\<rparr>"
  using cross_check_diagnostic_only
    [where db = "scenarioDb \<lparr>getFullYear = 2025, getMonth = 7\<rparr> False 107"
      and ledger = "[\<lparr>gl_fund = ''fund-current-tax'', totalDeposit = 1000000,
         totalPayments = Some 1, totalTransferOut = None\<rparr>]"
      and c = "''acme''" and d = "\<lparr>getFullYear = 2025, getMonth = 7\<rparr>"]
  by (simp add: scenario_sourceTotals scenario_compare)

subsection \<open>End-to-end scenarios\<close>

text \<open>
  C3, as amended. For a tenant whose tax window contains one current-year group
  \<open>{taxAmt: 100, penaltyAmt: 5, totalFees: 2, total: 107}\<close> on both tax-domain sources under
  the same (current tax year, district 1) key, with a GL cross-check total of 107 for
  "Current Tax", the two groups are added under the shared key: the \<open>currentTax\<close> category
  reports \<open>{apportionment: 214, gl: 214, diff: 0, match: true}\<close> and the tenant status is MATCH.
\<close>

theorem scenario_cross_check_107:
  "map_of (the (comparison (checkClient (scenarioDb d npt 107) c d))) ''currentTax'' =
     Some \<lparr>apportionment = 214, gl = 214, diff = 0, match = True\<rparr>
   \<and> status (checkClient (scenarioDb d npt 107) c d) = MATCH"
  by (simp add: scenario_currentTax scenario_status)

theorem scenario_cross_check_107_witness:
  "map_of (the (comparison (checkClient
       (scenarioDb \<lparr>getFullYear = 2025, getMonth = 7\<rparr> False 107) ''acme''
       \<lparr>getFullYear = 2025, getMonth = 7\<rparr>))) ''currentTax'' =
     Some \<lparr>apportionment = 214, gl = 214, diff = 0, match = True\<rparr>
   \<and> status (checkClient (scenarioDb \<lparr>getFullYear = 2025, getMonth = 7\<rparr> False 107) ''acme''
       \<lparr>getFullYear = 2025, getMonth = 7\<rparr>) = MATCH"
  using scenario_cross_check_107 [of "\<lparr>getFullYear = 2025, getMonth = 7\<rparr>" False "''acme''"]
  by simp

text \<open>The amounts first stated for the scenario, 107 on each side, are not what the check
  reports.\<close>

theorem scenario_cross_check_107_counterexample:
  "\<not> (map_of (the (comparison (checkClient
          (scenarioDb \<lparr>getFullYear = 2025, getMonth = 7\<rparr> False 107) ''acme''
          \<lparr>getFullYear = 2025, getMonth = 7\<rparr>))) ''currentTax'' =
        Some \<lparr>apportionment = 107, gl = 107, diff = 0, match = True\<rparr>
      \<and> status (checkClient (scenarioDb \<lparr>getFullYear = 2025, getMonth = 7\<rparr> False 107) ''acme''
          \<lparr>getFullYear = 2025, getMonth = 7\<rparr>) = MATCH)"
  by (simp add: scenario_currentTax)

text \<open>
  C2, as amended. For the same tenant with a GL cross-check total of 100 for "Current Tax",
  the \<open>currentTax\<close> category still reports \<open>diff: 0\<close> and \<open>match: true\<close>, the tenant status is
  MATCH and the mismatch detail is empty; the cross-check only prints a warning for
  "Current Tax" (computed 214, actual 100, difference 114).
\<close>

theorem scenario_cross_check_100:
  "diff (the (map_of (the (comparison (checkClient (scenarioDb d npt 100) c d))) ''currentTax''))
     = 0
   \<and> match (the (map_of (the (comparison (checkClient (scenarioDb d npt 100) c d)))
        ''currentTax''))
   \<and> status (checkClient (scenarioDb d npt 100) c d) = MATCH
   \<and> mismatchDetail (checkClient (scenarioDb d npt 100) c d) = []
   \<and> snd (checkClientRun (scenarioDb d npt 100) c d) =
       [\<lparr>w_description = ''Current Tax'', w_computed = 214, w_actual = 100, w_diff = 114\<rparr>]"
  by (simp add: scenario_currentTax scenario_status mismatchDetail_def scenario_run)

theorem scenario_cross_check_100_witness:
  "status (checkClient (scenarioDb \<lparr>getFullYear = 2025, getMonth = 7\<rparr> False 100) ''acme''
       \<lparr>getFullYear = 2025, getMonth = 7\<rparr>) = MATCH
   \<and> mismatchDetail (checkClient (scenarioDb \<lparr>getFullYear = 2025, getMonth = 7\<rparr> False 100)
       ''acme'' \<lparr>getFullYear = 2025, getMonth = 7\<rparr>) = []"
  using scenario_cross_check_100 [of "\<lparr>getFullYear = 2025, getMonth = 7\<rparr>" False "''acme''"]
  by simp

text \<open>The outcome first stated for the scenario (\<open>diff: 7\<close>, \<open>match: false\<close>, status MISMATCH,
  \<open>currentTax\<close> in the mismatch detail) is not what the check reports.\<close>

theorem scenario_cross_check_100_counterexample:
  "\<not> (diff (the (map_of (the (comparison (checkClient
          (scenarioDb \<lparr>getFullYear = 2025, getMonth = 7\<rparr> False 100) ''acme''
          \<lparr>getFullYear = 2025, getMonth = 7\<rparr>))) ''currentTax'')) = 7
      \<and> \<not> match (the (map_of (the (comparison (checkClient
          (scenarioDb \<lparr>getFullYear = 2025, getMonth = 7\<rparr> False 100) ''acme''
          \<lparr>getFullYear = 2025, getMonth = 7\<rparr>))) ''currentTax''))
      \<and> status (checkClient (scenarioDb \<lparr>getFullYear = 2025, getMonth = 7\<rparr> False 100) ''acme''
          \<lparr>getFullYear = 2025, getMonth = 7\<rparr>) = MISMATCH
      \<and> ''currentTax'' \<in> set (mismatchDetail (checkClient
          (scenarioDb \<lparr>getFullYear = 2025, getMonth = 7\<rparr> False 100) ''acme''
          \<lparr>getFullYear = 2025, getMonth = 7\<rparr>)))"
  by (simp add: scenario_currentTax)

subsection \<open>Misc residual\<close>







lemma detailTag_unit1 [simp]: "detailTag \<lparr>unitCodeNumber = Some 1, totalAmount = a\<rparr> = ''ABT''"
  by (simp add: detailTag_def unitCodeToTag_def show_int_eval)





subsection \<open>Non-tax categories\<close>





























subsection \<open>Merge and classify\<close>

lemma glKey_inj [simp]: "(glKey c = glKey c') = (c = c')"
  by (cases c; cases c') (simp_all add: glKey_def)

lemma taxTag_inj [simp]: "(taxTag c = taxTag c') = (c = c')"
  by (cases c; cases c') (simp_all add: taxTag_def)

lemma penTag_inj [simp]: "(penTag c = penTag c') = (c = c')"
  by (cases c; cases c') (simp_all add: penTag_def)

lemma feeTag_inj [simp]: "(feeTag c = feeTag c') = (c = c')"
  by (cases c; cases c') (simp_all add: feeTag_def)

lemma tags_apart [simp]:
  "taxTag c \<noteq> penTag c'" "taxTag c \<noteq> feeTag c'" "penTag c \<noteq> taxTag c'"
  "penTag c \<noteq> feeTag c'" "feeTag c \<noteq> taxTag c'" "feeTag c \<noteq> penTag c'"
  by (cases c; cases c'; simp add: taxTag_def penTag_def feeTag_def)+

lemma classifyLoop_gl:
  "lookup0 (fst (foldl (classifyStep st npt) acc rs)) (glKey c) =
     lookup0 (fst acc) (glKey c)
       + sum_list (map m_total (filter (\<lambda>r. yearCategory st npt (m_taxYear r) = c) rs))"
  by (induction rs arbitrary: acc) (auto simp: classifyStep_def Let_def)

lemma classifyLoop_tax:
  "lookup0 (snd (foldl (classifyStep st npt) acc rs)) (taxTag c) =
     lookup0 (snd acc) (taxTag c)
       + sum_list (map m_taxAmt (filter (\<lambda>r. yearCategory st npt (m_taxYear r) = c) rs))"
  by (induction rs arbitrary: acc) (auto simp: classifyStep_def Let_def)

lemma classifyLoop_pen:
  "lookup0 (snd (foldl (classifyStep st npt) acc rs)) (penTag c) =
     lookup0 (snd acc) (penTag c)
       + sum_list (map m_penaltyAmt (filter (\<lambda>r. yearCategory st npt (m_taxYear r) = c) rs))"
  by (induction rs arbitrary: acc) (auto simp: classifyStep_def Let_def)

lemma classifyLoop_fee:
  "lookup0 (snd (foldl (classifyStep st npt) acc rs)) (feeTag c) =
     lookup0 (snd acc) (feeTag c)
       + sum_list (map m_totalFees (filter (\<lambda>r. yearCategory st npt (m_taxYear r) = c) rs))"
  by (induction rs arbitrary: acc) (auto simp: classifyStep_def Let_def)

text \<open>
  C5. Classification of a merged tax record: current if its tax year equals \<open>currentTax\<close>;
  otherwise back if the tenant flag \<open>noPriorTax\<close> is set (also for a tax year equal to
  \<open>priorTax\<close>); otherwise prior if its tax year equals \<open>priorTax\<close>; otherwise back. The same
  bucket serves both sides, with running sums: after the loop the GL fund key of a bucket
  holds the sum of the totals of the records of that bucket, and the bucket's base, penalty
  and fee tags hold the sums of their tax amounts, penalties and fees.
\<close>

theorem classification_rule:
  "(ty = currentTax st \<longrightarrow> yearCategory st npt ty = Current)
   \<and> (ty \<noteq> currentTax st \<and> npt \<longrightarrow> yearCategory st npt ty = Back)
   \<and> (ty \<noteq> currentTax st \<and> \<not> npt \<and> ty = priorTax st \<longrightarrow> yearCategory st npt ty = Prior)
   \<and> (ty \<noteq> currentTax st \<and> \<not> npt \<and> ty \<noteq> priorTax st \<longrightarrow> yearCategory st npt ty = Back)
   \<and> lookup0 (fst (classifyRecords st npt rs)) (glKey c) =
        sum_list (map m_total (filter (\<lambda>r. yearCategory st npt (m_taxYear r) = c) rs))
   \<and> lookup0 (snd (classifyRecords st npt rs)) (taxTag c) =
        sum_list (map m_taxAmt (filter (\<lambda>r. yearCategory st npt (m_taxYear r) = c) rs))
   \<and> lookup0 (snd (classifyRecords st npt rs)) (penTag c) =
        sum_list (map m_penaltyAmt (filter (\<lambda>r. yearCategory st npt (m_taxYear r) = c) rs))
   \<and> lookup0 (snd (classifyRecords st npt rs)) (feeTag c) =
        sum_list (map m_totalFees (filter (\<lambda>r. yearCategory st npt (m_taxYear r) = c) rs))
   \<and> computeTaxTotals now resultsA resultsB d npt =
        classifyRecords (getTaxYearStatus now (Some d)) npt
          (map snd (mergeRecords resultsA resultsB))"
  by (simp add: yearCategory_def classifyRecords_def classifyLoop_gl classifyLoop_tax
      classifyLoop_pen classifyLoop_fee computeTaxTotals_def Let_def)

theorem classification_rule_witness:
  "yearCategory (getTaxYearStatus \<lparr>getFullYear = 2025, getMonth = 7\<rparr>
      (Some \<lparr>getFullYear = 2025, getMonth = 7\<rparr>)) True 2024 = Back
   \<and> yearCategory (getTaxYearStatus \<lparr>getFullYear = 2025, getMonth = 7\<rparr>
      (Some \<lparr>getFullYear = 2025, getMonth = 7\<rparr>)) False 2024 = Prior
   \<and> yearCategory (getTaxYearStatus \<lparr>getFullYear = 2025, getMonth = 7\<rparr>
      (Some \<lparr>getFullYear = 2025, getMonth = 7\<rparr>)) False 2025 = Current
   \<and> yearCategory (getTaxYearStatus \<lparr>getFullYear = 2025, getMonth = 7\<rparr>
      (Some \<lparr>getFullYear = 2025, getMonth = 7\<rparr>)) False 2019 = Back
   \<and> lookup0 (fst (computeTaxTotals \<lparr>getFullYear = 2025, getMonth = 7\<rparr>
        [\<lparr>taxYear = 2024, schoolDistrict = ''1'', taxAmt = Some 8, penaltyAmt = Some 1,
          totalFees = Some 1, total = Some 10\<rparr>,
         \<lparr>taxYear = 2024, schoolDistrict = ''2'', taxAmt = Some 17, penaltyAmt = Some 2,
          totalFees = Some 1, total = Some 20\<rparr>] []
        \<lparr>getFullYear = 2025, getMonth = 7\<rparr> True)) ''Back Tax'' = 30
   \<and> lookup0 (snd (computeTaxTotals \<lparr>getFullYear = 2025, getMonth = 7\<rparr>
        [\<lparr>taxYear = 2024, schoolDistrict = ''1'', taxAmt = Some 8, penaltyAmt = Some 1,
          totalFees = Some 1, total = Some 10\<rparr>,
         \<lparr>taxYear = 2024, schoolDistrict = ''2'', taxAmt = Some 17, penaltyAmt = Some 2,
          totalFees = Some 1, total = Some 20\<rparr>] []
        \<lparr>getFullYear = 2025, getMonth = 7\<rparr> True)) ''BTax'' = 25
   \<and> lookup0 (fst (computeTaxTotals \<lparr>getFullYear = 2025, getMonth = 7\<rparr>
        [\<lparr>taxYear = 2024, schoolDistrict = ''1'', taxAmt = Some 8, penaltyAmt = Some 1,
          totalFees = Some 1, total = Some 10\<rparr>,
         \<lparr>taxYear = 2024, schoolDistrict = ''2'', taxAmt = Some 17, penaltyAmt = Some 2,
          totalFees = Some 1, total = Some 20\<rparr>] []
        \<lparr>getFullYear = 2025, getMonth = 7\<rparr> True)) ''Prior Tax'' = 0"
proof -
  let ?d = "\<lparr>getFullYear = 2025, getMonth = 7\<rparr>"
  let ?A = "[\<lparr>taxYear = 2024, schoolDistrict = ''1'', taxAmt = Some 8, penaltyAmt = Some 1,
          totalFees = Some 1, total = Some 10\<rparr>,
         \<lparr>taxYear = 2024, schoolDistrict = ''2'', taxAmt = Some 17, penaltyAmt = Some 2,
          totalFees = Some 1, total = Some 20\<rparr>]"
  let ?S = "getTaxYearStatus ?d (Some ?d)"
  let ?rs = "map snd (mergeRecords ?A [])"
  have st: "currentTax ?S = 2025" "priorTax ?S = 2024"
    by (simp_all add: getTaxYearStatus_def)
  have ms: "?rs =
      [\<lparr>m_taxYear = 2024, m_schoolDistrict = ''1'', m_taxAmt = 8, m_penaltyAmt = 1,
        m_totalFees = 1, m_total = 10\<rparr>,
       \<lparr>m_taxYear = 2024, m_schoolDistrict = ''2'', m_taxAmt = 17, m_penaltyAmt = 2,
        m_totalFees = 1, m_total = 20\<rparr>]"
    by (simp add: mergeRecords_def mergeStep_def mergeKey_def)
  have k: "glKey Back = ''Back Tax''" "glKey Prior = ''Prior Tax''" "taxTag Back = ''BTax''"
    by (simp_all add: glKey_def taxTag_def)
  note r1 = classification_rule [where ty = 2024 and st = ?S and npt = True and rs = ?rs
      and c = Back and now = ?d and resultsA = ?A and resultsB = "[]" and d = ?d]
  note r2 = classification_rule [where ty = 2024 and st = ?S and npt = False and rs = ?rs
      and c = Prior and now = ?d and resultsA = ?A and resultsB = "[]" and d = ?d]
  note r3 = classification_rule [where ty = 2025 and st = ?S and npt = False and rs = ?rs
      and c = Prior and now = ?d and resultsA = ?A and resultsB = "[]" and d = ?d]
  note r4 = classification_rule [where ty = 2019 and st = ?S and npt = False and rs = ?rs
      and c = Prior and now = ?d and resultsA = ?A and resultsB = "[]" and d = ?d]
  note r5 = classification_rule [where ty = 2024 and st = ?S and npt = True and rs = ?rs
      and c = Prior and now = ?d and resultsA = ?A and resultsB = "[]" and d = ?d]
  have y: "yearCategory ?S True 2024 = Back" "yearCategory ?S False 2024 = Prior"
    "yearCategory ?S False 2025 = Current" "yearCategory ?S False 2019 = Back"
    using r1 r2 r3 r4 by (simp_all add: st)
  have g: "lookup0 (fst (computeTaxTotals ?d ?A [] ?d True)) ''Back Tax'' = 30"
    "lookup0 (snd (computeTaxTotals ?d ?A [] ?d True)) ''BTax'' = 25"
    using r1 unfolding ms k by (simp_all add: y)
  have p: "lookup0 (fst (computeTaxTotals ?d ?A [] ?d True)) ''Prior Tax'' = 0"
    using r5 unfolding ms k by (simp add: y)
  from y g p show ?thesis by simp
qed

subsection \<open>Merge order\<close>
























subsection \<open>Tenant orchestrator\<close>

lemma firstPass_loop:
  "foldl (firstPassStep env d) s xs =
     \<lparr>calls = calls s @ xs,
      results = results s @ map (\<lambda>ic. checkClient (env (fst ic) (snd ic)) (snd ic) d)
                              (enumerate (length (calls s)) xs)\<rparr>"
  by (induction xs arbitrary: s) (simp_all add: firstPassStep_def Let_def)

lemma firstPass_run:
  "foldl (firstPassStep env d) \<lparr>calls = [], results = []\<rparr> clients =
     \<lparr>calls = clients, results = firstPassResults env d clients\<rparr>"
  by (simp add: firstPass_loop firstPassResults_def)

lemma client_firstPassResults [simp]: "map client (firstPassResults env d clients) = clients"
proof -
  have "map client (map (\<lambda>ic. checkClient (env (fst ic) (snd ic)) (snd ic) d) (enumerate n xs)) = xs"
    for n xs
    by (induction xs arbitrary: n) simp_all
  then show ?thesis by (simp add: firstPassResults_def)
qed

lemma length_firstPassResults [simp]: "length (firstPassResults env d clients) = length clients"
  by (simp add: firstPassResults_def)

lemma nth_firstPassResults:
  "i < length clients \<Longrightarrow>
     firstPassResults env d clients ! i = checkClient (env i (clients ! i)) (clients ! i) d"
  by (simp add: firstPassResults_def nth_enumerate_eq)

lemma findIndex_None: "(findIndex p xs = None) = (\<forall>x \<in> set xs. \<not> p x)"
  by (induction xs) (auto split: option.splits)

lemma distinct_client_Cons:
  fixes x y :: tenant_result
  assumes "distinct (map client (x # xs))" and "y \<in> set xs"
  shows "client y \<noteq> client x"
proof -
  from assms(2) have "client y \<in> set (map client xs)"
    by (simp only: set_map) (rule imageI)
  moreover from assms(1) have "client x \<notin> set (map client xs)"
    by simp
  ultimately show ?thesis by metis
qed

lemma replace_by_name:
  fixes R :: "tenant_result list"
  shows "distinct (map client R) \<Longrightarrow>
     (case findIndex (\<lambda>r. client r = c) R of None \<Rightarrow> R | Some i \<Rightarrow> R[i := v])
       = map (\<lambda>r. if client r = c then v else r) R"
proof (induction R)
  case Nil
  show ?case by simp
next
  case (Cons x xs)
  show ?case
  proof (cases "client x = c")
    case True
    with distinct_client_Cons [OF Cons.prems] have "\<forall>y \<in> set xs. client y \<noteq> c"
      by auto
    then have "map (\<lambda>r. if client r = c then v else r) xs = xs"
      by (simp add: map_idI)
    with True show ?thesis by simp
  next
    case False
    with Cons show ?thesis by (simp split: option.splits)
  qed
qed

lemma retry_loop:
  assumes "distinct (map client (results s))" and "distinct (map client fs)"
  shows "foldl (retryStep env d) s fs =
     \<lparr>calls = calls s @ map client fs,
      results = map (\<lambda>r. case findIndex (\<lambda>f. client f = client r) fs of
                            None \<Rightarrow> r
                          | Some k \<Rightarrow> checkClient (env (length (calls s) + k) (client r))
                                       (client r) d) (results s)\<rparr>"
  using assms
proof (induction fs arbitrary: s)
  case Nil
  show ?case by simp
next
  case (Cons f fs)
  let ?v = "checkClient (env (length (calls s)) (client f)) (client f) d"
  let ?s' = "retryStep env d s f"
  have s': "?s' = \<lparr>calls = calls s @ [client f],
                   results = map (\<lambda>r. if client r = client f then ?v else r) (results s)\<rparr>"
    using replace_by_name [OF Cons.prems(1), where c = "client f" and v = ?v]
    by (simp add: retryStep_def Let_def)
  have names: "map client (results ?s') = map client (results s)"
    by (simp add: s' comp_def)
  have d1: "distinct (map client (results ?s'))"
    using Cons.prems(1) by (simp only: names)
  have d2: "distinct (map client fs)"
    using Cons.prems(2) by simp
  have nf: "findIndex (\<lambda>g. client g = client f) fs = None"
    using distinct_client_Cons [OF Cons.prems(2)] by (simp only: findIndex_None) auto
  have "foldl (retryStep env d) s (f # fs) = foldl (retryStep env d) ?s' fs"
    by simp
  also have "\<dots> = \<lparr>calls = calls ?s' @ map client fs,
      results = map (\<lambda>r. case findIndex (\<lambda>f. client f = client r) fs of
                            None \<Rightarrow> r
                          | Some k \<Rightarrow> checkClient (env (length (calls ?s') + k) (client r))
                                       (client r) d) (results ?s')\<rparr>"
    by (rule Cons.IH [OF d1 d2])
  also have "\<dots> = \<lparr>calls = calls s @ map client (f # fs),
      results = map (\<lambda>r. case findIndex (\<lambda>f. client f = client r) (f # fs) of
                            None \<Rightarrow> r
                          | Some k \<Rightarrow> checkClient (env (length (calls s) + k) (client r))
                                       (client r) d) (results s)\<rparr>"
    by (simp add: s' nf comp_def split: option.splits cong: map_cong)
  finally show ?case .
qed

lemma findIndex_Some: "findIndex p xs = Some i \<Longrightarrow> i < length xs \<and> p (xs ! i)"
  by (induction xs arbitrary: i) (auto split: if_splits option.splits)

lemma retry_calls: "calls (foldl (retryStep env d) s fs) = calls s @ map client fs"
  by (induction fs arbitrary: s) (simp_all add: retryStep_def Let_def)

lemma retryStep_clients: "map client (results (retryStep env d s f)) = map client (results s)"
proof (cases "findIndex (\<lambda>r. client r = client f) (results s)")
  case None
  then show ?thesis by (simp add: retryStep_def Let_def)
next
  case (Some i)
  from findIndex_Some [OF Some] have "i < length (results s)" "client (results s ! i) = client f"
    by simp_all
  then have "(map client (results s))[i := client f] = map client (results s)"
    by (metis list_update_id nth_map)
  with Some show ?thesis
    by (simp add: retryStep_def Let_def map_update)
qed

lemma retry_clients:
  "map client (results (foldl (retryStep env d) s fs)) = map client (results s)"
  by (induction fs arbitrary: s) (simp_all add: retryStep_clients)

lemma mainRun_eq:
  "mainRun env d clients =
     foldl (retryStep env d) \<lparr>calls = clients, results = firstPassResults env d clients\<rparr>
       (filter (\<lambda>r. status r = ERROR) (firstPassResults env d clients))"
  by (simp add: mainRun_def firstPass_run Let_def)

lemma findIndex_filter:
  fixes F :: "tenant_result list"
  assumes "distinct (map client F)" and "i < length F"
  shows "findIndex (\<lambda>f. client f = client (F ! i)) (filter P F) =
           (if P (F ! i) then Some (length (filter P (take i F))) else None)"
  using assms
proof (induction F arbitrary: i)
  case Nil
  then show ?case by simp
next
  case (Cons x xs)
  show ?case
  proof (cases i)
    case 0
    have "\<forall>y \<in> set (filter P xs). client y \<noteq> client x"
      using distinct_client_Cons [OF Cons.prems(1)] by auto
    then have "findIndex (\<lambda>f. client f = client x) (filter P xs) = None"
      by (simp only: findIndex_None)
    with 0 show ?thesis by simp
  next
    case (Suc j)
    with Cons.prems have j: "j < length xs" and d: "distinct (map client xs)"
      by simp_all
    have ne: "client x \<noteq> client (xs ! j)"
      using distinct_client_Cons [OF Cons.prems(1), of "xs ! j"] j by auto
    from Cons.IH [OF d j] Suc ne show ?thesis
      by simp
  qed
qed


lemma scenario_checkClient:
  "checkClient (scenarioDb d npt x) c d =
     \<lparr>client = c, status = MATCH,
       comparison = Some
         [(''currentTax'', \<lparr>apportionment = 214, gl = 214, diff = 0, match = True\<rparr>),
          (''priorTax'', \<lparr>apportionment = 0, gl = 0, diff = 0, match = True\<rparr>),
          (''backTax'', \<lparr>apportionment = 0, gl = 0, diff = 0, match = True\<rparr>),
          (''miscReceipts'', \<lparr>apportionment = 0, gl = 0, diff = 0, match = True\<rparr>),
          (''mtgTaxCert'', \<lparr>apportionment = 0, gl = 0, diff = 0, match = True\<rparr>),
          (''mtgTax'', \<lparr>apportionment = 0, gl = 0, diff = 0, match = True\<rparr>)],
       error = None\<rparr>"
  by (simp add: checkClient_def scenario_run)

lemma failing_checkClient:
  "checkClient failingDb c d =
     \<lparr>client = c, status = ERROR, comparison = None, error = Some ''connection reset''\<rparr>"
  by (simp add: checkClient_def checkClientRun_def checkClientBody_def sourceTotals_def
      failingDb_def scenarioDb_def)

lemma retry_run:
  "mainRun retryEnv \<lparr>getFullYear = 2025, getMonth = 7\<rparr> [''acme'', ''globex'', ''initech''] =
     \<lparr>calls = [''acme'', ''globex'', ''initech'', ''globex''],
      results =
        [checkClient (scenarioDb \<lparr>getFullYear = 2025, getMonth = 7\<rparr> False 107) ''acme''
           \<lparr>getFullYear = 2025, getMonth = 7\<rparr>,
         checkClient (scenarioDb \<lparr>getFullYear = 2025, getMonth = 7\<rparr> False 107) ''globex''
           \<lparr>getFullYear = 2025, getMonth = 7\<rparr>,
         checkClient (scenarioDb \<lparr>getFullYear = 2025, getMonth = 7\<rparr> False 107) ''initech''
           \<lparr>getFullYear = 2025, getMonth = 7\<rparr>]\<rparr>"
  by (simp add: mainRun_def firstPassStep_def retryStep_def retryEnv_def Let_def
      failing_checkClient scenario_status)

lemma duplicate_run:
  "mainRun duplicateEnv \<lparr>getFullYear = 2025, getMonth = 7\<rparr> [''acme'', ''acme''] =
     \<lparr>calls = [''acme'', ''acme'', ''acme'', ''acme''],
      results =
        [checkClient (scenarioDb \<lparr>getFullYear = 2025, getMonth = 7\<rparr> False 107) ''acme''
           \<lparr>getFullYear = 2025, getMonth = 7\<rparr>,
         checkClient failingDb ''acme'' \<lparr>getFullYear = 2025, getMonth = 7\<rparr>]\<rparr>"
  by (simp add: mainRun_def firstPassStep_def retryStep_def duplicateEnv_def Let_def
      failing_checkClient scenario_status)


text \<open>
  C8, as amended. The first pass checks the tenants in input order. Afterwards the tenant of
  every result in ERROR is checked once more, in the original relative order, and no further
  check is made; the run ends with exactly one result for every requested tenant, under that
  tenant's name. When no name is repeated in the tenant list, each result in ERROR is
  replaced in place, wholesale, by the result of its retry, whether or not the retry fails
  too, and every other result is the one of the first pass.
\<close>

theorem retry_once:
  "calls (mainRun env d clients) =
      clients @ map client (filter (\<lambda>r. status r = ERROR) (firstPassResults env d clients))
   \<and> length (results (mainRun env d clients)) = length clients
   \<and> map client (results (mainRun env d clients)) = clients
   \<and> (distinct clients \<longrightarrow>
        (\<forall>i < length clients.
           results (mainRun env d clients) ! i =
             (if status (firstPassResults env d clients ! i) = ERROR
              then checkClient
                     (env (length clients
                           + length (filter (\<lambda>r. status r = ERROR)
                                       (take i (firstPassResults env d clients))))
                        (clients ! i))
                     (clients ! i) d
              else firstPassResults env d clients ! i)))"
proof -
  let ?F = "firstPassResults env d clients"
  let ?failed = "filter (\<lambda>r. status r = ERROR) ?F"
  let ?s1 = "\<lparr>calls = clients, results = ?F\<rparr>"
  have c: "calls (mainRun env d clients) = clients @ map client ?failed"
    by (simp add: mainRun_eq retry_calls)
  have n: "map client (results (mainRun env d clients)) = clients"
    by (simp add: mainRun_eq retry_clients)
  then have l: "length (results (mainRun env d clients)) = length clients"
    by (metis length_map)
  have r: "results (mainRun env d clients) ! i =
             (if status (?F ! i) = ERROR
              then checkClient
                     (env (length clients + length (filter (\<lambda>r. status r = ERROR) (take i ?F)))
                        (clients ! i))
                     (clients ! i) d
              else ?F ! i)"
    if dist: "distinct clients" and i: "i < length clients" for i
  proof -
    have dF: "distinct (map client (results ?s1))"
      using dist by simp
    have dfail: "distinct (map client ?failed)"
      using dist by (metis client_firstPassResults distinct_map_filter)
    have ci: "client (?F ! i) = clients ! i"
      using i by (simp add: nth_firstPassResults)
    have fi: "findIndex (\<lambda>f. client f = client (?F ! i)) ?failed =
           (if status (?F ! i) = ERROR
            then Some (length (filter (\<lambda>r. status r = ERROR) (take i ?F))) else None)"
      using dist i by (intro findIndex_filter) simp_all
    show ?thesis
      using i by (simp add: mainRun_eq retry_loop [OF dF dfail] fi [unfolded ci] ci)
  qed
  from c n l r show ?thesis by blast
qed

theorem retry_once_witness:
  "distinct [''acme'', ''globex'', ''initech'']
   \<and> status (firstPassResults retryEnv \<lparr>getFullYear = 2025, getMonth = 7\<rparr>
        [''acme'', ''globex'', ''initech''] ! 1) = ERROR
   \<and> calls (mainRun retryEnv \<lparr>getFullYear = 2025, getMonth = 7\<rparr>
        [''acme'', ''globex'', ''initech'']) = [''acme'', ''globex'', ''initech'', ''globex'']
   \<and> results (mainRun retryEnv \<lparr>getFullYear = 2025, getMonth = 7\<rparr>
        [''acme'', ''globex'', ''initech'']) ! 1 =
       checkClient (retryEnv 3 ''globex'') ''globex'' \<lparr>getFullYear = 2025, getMonth = 7\<rparr>
   \<and> status (results (mainRun retryEnv \<lparr>getFullYear = 2025, getMonth = 7\<rparr>
        [''acme'', ''globex'', ''initech'']) ! 1) = MATCH
   \<and> buildSummary (results (mainRun retryEnv \<lparr>getFullYear = 2025, getMonth = 7\<rparr>
        [''acme'', ''globex'', ''initech''])) =
       \<lparr>s_total = 3, s_matched = 3, s_mismatched = 0, s_errors = 0\<rparr>"
proof -
  let ?d = "\<lparr>getFullYear = 2025, getMonth = 7\<rparr>"
  let ?cl = "[''acme'', ''globex'', ''initech'']"
  have F: "firstPassResults retryEnv ?d ?cl =
      [checkClient (scenarioDb ?d False 107) ''acme'' ?d, checkClient failingDb ''globex'' ?d,
       checkClient (scenarioDb ?d False 107) ''initech'' ?d]"
    by (simp add: firstPassResults_def retryEnv_def)
  have e: "status (firstPassResults retryEnv ?d ?cl ! 1) = ERROR"
    by (simp add: F failing_checkClient)
  have k: "length (filter (\<lambda>r. status r = ERROR) (take 1 (firstPassResults retryEnv ?d ?cl))) = 0"
    by (simp add: F scenario_status)
  have dist: "distinct ?cl"
    by simp
  have "calls (mainRun retryEnv ?d ?cl) = ?cl @ [''globex'']"
    and "results (mainRun retryEnv ?d ?cl) ! 1 = checkClient (retryEnv 3 ''globex'') ''globex'' ?d"
    using retry_once [of retryEnv ?d ?cl] dist e k
    by (simp_all add: F failing_checkClient scenario_status numeral_3_eq_3)
  moreover have "status (checkClient (retryEnv 3 ''globex'') ''globex'' ?d) = MATCH"
    by (simp add: retryEnv_def scenario_status)
  moreover have "buildSummary (results (mainRun retryEnv ?d ?cl)) =
       \<lparr>s_total = 3, s_matched = 3, s_mismatched = 0, s_errors = 0\<rparr>"
    by (simp add: retry_run buildSummary_def scenario_status)
  ultimately show ?thesis using e by simp
qed

text \<open>With a name listed twice the replacement, as first stated for every tenant, fails:
  both entries fail in the first pass and both retries succeed, but the lookup by name finds
  the first entry each time, so the second entry keeps its ERROR result of the first pass.\<close>

theorem retry_duplicate_counterexample:
  "status (firstPassResults duplicateEnv \<lparr>getFullYear = 2025, getMonth = 7\<rparr>
        [''acme'', ''acme''] ! 1) = ERROR
   \<and> calls (mainRun duplicateEnv \<lparr>getFullYear = 2025, getMonth = 7\<rparr> [''acme'', ''acme''])
       = [''acme'', ''acme'', ''acme'', ''acme'']
   \<and> status (checkClient (duplicateEnv 3 ''acme'') ''acme''
        \<lparr>getFullYear = 2025, getMonth = 7\<rparr>) = MATCH
   \<and> results (mainRun duplicateEnv \<lparr>getFullYear = 2025, getMonth = 7\<rparr> [''acme'', ''acme'']) ! 1
       = firstPassResults duplicateEnv \<lparr>getFullYear = 2025, getMonth = 7\<rparr> [''acme'', ''acme''] ! 1
   \<and> \<not> (results (mainRun duplicateEnv \<lparr>getFullYear = 2025, getMonth = 7\<rparr>
            [''acme'', ''acme'']) ! 1
        = checkClient (duplicateEnv 3 ''acme'') ''acme'' \<lparr>getFullYear = 2025, getMonth = 7\<rparr>)"
proof -
  let ?d = "\<lparr>getFullYear = 2025, getMonth = 7\<rparr>"
  have F: "firstPassResults duplicateEnv ?d [''acme'', ''acme''] =
      [checkClient failingDb ''acme'' ?d, checkClient failingDb ''acme'' ?d]"
    by (simp add: firstPassResults_def duplicateEnv_def)
  have r3: "checkClient (duplicateEnv 3 ''acme'') ''acme'' ?d
              = checkClient (scenarioDb ?d False 107) ''acme'' ?d"
    by (simp add: duplicateEnv_def)
  have ne: "status (checkClient failingDb ''acme'' ?d)
              \<noteq> status (checkClient (scenarioDb ?d False 107) ''acme'' ?d)"
    by (simp add: failing_checkClient scenario_status)
  then have "checkClient failingDb ''acme'' ?d \<noteq> checkClient (scenarioDb ?d False 107) ''acme'' ?d"
    by metis
  then show ?thesis
    by (simp add: F duplicate_run r3 failing_checkClient scenario_status)
qed

subsection \<open>Fiscal classifier\<close>

text \<open>
  C4. For every reference date the classifier returns \<open>currentTax = year - 1\<close> when the calendar
  month (\<open>getMonth() + 1\<close>) is at most 6 and \<open>currentTax = year\<close> when it is at least 7; in
  both cases \<open>priorTax = currentTax - 1\<close>, \<open>backTax = currentTax - 2\<close> and
  \<open>nextTax = currentTax + 1\<close>. The function has no error path: it returns a status for every
  date.
\<close>

theorem getTaxYearStatus_rule:
  "(getMonth d + 1 \<le> 6 \<longrightarrow>
      currentTax (getTaxYearStatus now (Some d)) = getFullYear d - 1)
   \<and> (getMonth d + 1 \<ge> 7 \<longrightarrow>
      currentTax (getTaxYearStatus now (Some d)) = getFullYear d)
   \<and> priorTax (getTaxYearStatus now (Some d)) = currentTax (getTaxYearStatus now (Some d)) - 1
   \<and> backTax (getTaxYearStatus now (Some d)) = currentTax (getTaxYearStatus now (Some d)) - 2
   \<and> nextTax (getTaxYearStatus now (Some d)) = currentTax (getTaxYearStatus now (Some d)) + 1"
  by (simp add: getTaxYearStatus_def Let_def)

theorem getTaxYearStatus_rule_witness:
  "getMonth \<lparr>getFullYear = 2025, getMonth = 5\<rparr> + 1 \<le> 6
   \<and> currentTax (getTaxYearStatus \<lparr>getFullYear = 1999, getMonth = 0\<rparr>
        (Some \<lparr>getFullYear = 2025, getMonth = 5\<rparr>)) = 2024
   \<and> getMonth \<lparr>getFullYear = 2025, getMonth = 6\<rparr> + 1 \<ge> 7
   \<and> currentTax (getTaxYearStatus \<lparr>getFullYear = 1999, getMonth = 0\<rparr>
        (Some \<lparr>getFullYear = 2025, getMonth = 6\<rparr>)) = 2025"
  using getTaxYearStatus_rule [of "\<lparr>getFullYear = 2025, getMonth = 5\<rparr>"
          "\<lparr>getFullYear = 1999, getMonth = 0\<rparr>"]
        getTaxYearStatus_rule [of "\<lparr>getFullYear = 2025, getMonth = 6\<rparr>"
          "\<lparr>getFullYear = 1999, getMonth = 0\<rparr>"]
  by simp

end
